theory Spec2Isabelle
  imports Complex_Main
begin

section \<open>JavaScript values read by the loan-conversion scripts\<close>

text \<open>
  The scripts in \<^verbatim>\<open>public/js/nbs_theme.js\<close> read numbers with \<^verbatim>\<open>parseFloat\<close>,
  compare them with \<^verbatim>\<open><\<close>, \<^verbatim>\<open>>\<close> and \<^verbatim>\<open>>=\<close>, and default them with \<^verbatim>\<open>|| 0\<close>.
  No arithmetic is done on a quantity, so a number is modelled by what it denotes:
  \<open>NaN\<close>, the two infinities, or a finite real (every finite double is one, and the
  comparisons of doubles agree with the order of the reals; \<open>-0\<close> and \<open>0\<close> are both
  \<open>Fin 0\<close>, which no operation below tells apart).
\<close>

datatype jsnum = NaN | NInf | Fin real | PInf

text \<open>\<^verbatim>\<open>a < b\<close> on numbers: false as soon as one side is \<open>NaN\<close>.\<close>

fun js_lt :: "jsnum \<Rightarrow> jsnum \<Rightarrow> bool" where
  "js_lt NaN b = False"
| "js_lt a NaN = False"
| "js_lt NInf NInf = False"
| "js_lt NInf b = True"
| "js_lt (Fin a) (Fin b) = (a < b)"
| "js_lt (Fin a) PInf = True"
| "js_lt (Fin a) NInf = False"
| "js_lt PInf b = False"

text \<open>\<^verbatim>\<open>a > b\<close> and \<^verbatim>\<open>a >= b\<close>.\<close>

definition js_gt :: "jsnum \<Rightarrow> jsnum \<Rightarrow> bool" where
  "js_gt a b = js_lt b a"

definition js_ge :: "jsnum \<Rightarrow> jsnum \<Rightarrow> bool" where
  "js_ge a b = (a \<noteq> NaN \<and> b \<noteq> NaN \<and> \<not> js_lt a b)"

text \<open>Truthiness of a number: \<open>NaN\<close> and zero are falsy.\<close>

definition num_truthy :: "jsnum \<Rightarrow> bool" where
  "num_truthy n = (n \<noteq> NaN \<and> n \<noteq> Fin 0)"

text \<open>\<^verbatim>\<open>n || 0\<close>.\<close>

definition or_zero :: "jsnum \<Rightarrow> jsnum" where
  "or_zero n = (if num_truthy n then n else Fin 0)"

text \<open>
  Values that are only carried around (codes, names, dates): the JSON values the
  server sends, with \<open>Undefined\<close> for an absent property.
\<close>

datatype jsval = Undefined | Null | Str string | Num jsnum

fun js_truthy :: "jsval \<Rightarrow> bool" where
  "js_truthy Undefined = False"
| "js_truthy Null = False"
| "js_truthy (Str s) = (s \<noteq> [])"
| "js_truthy (Num n) = num_truthy n"

section \<open>The quantity inputs of the conversion dialog\<close>

text \<open>
  One \<^verbatim>\<open><input type="number" class="convert-input">\<close> of
  \<^verbatim>\<open>render_conversion_table\<close>. The \<^verbatim>\<open>max\<close> attribute and the text of the field are
  kept as the number \<^verbatim>\<open>parseFloat\<close> reads from them (\<open>NaN\<close> for an empty or
  non-numeric text); \<^verbatim>\<open>$(this).val(n)\<close> stores a text that reads back as \<open>n\<close>
  (the handler below writes a negative \<open>n\<close> only to overwrite it with 0 at once).
\<close>

record convert_input =
  max_attr :: jsnum
  data_index :: nat
  input_val :: jsnum

record alert =
  alert_message :: string
  alert_indicator :: string

definition over_max_alert :: alert where
  "over_max_alert =
     \<lparr>alert_message = ''Cannot convert more than maximum convertible quantity.'',
      alert_indicator = ''orange''\<rparr>"

text \<open>
  The \<^verbatim>\<open>input\<close> handler bound in \<^verbatim>\<open>render_conversion_table\<close>:
  \<^verbatim>\<open>
  const max = parseFloat($(this).attr("max")) || 0;
  let val = parseFloat($(this).val()) || 0;
  if (val > max) { val = max; $(this).val(max); frappe.show_alert({...}); }
  if (val < 0) { $(this).val(0); }
  \<close>
  It returns the field and the alerts it raised. It has no \<^verbatim>\<open>throw\<close> and calls
  nothing that rejects the edit.
\<close>

definition convert_input_on_input :: "convert_input \<Rightarrow> convert_input \<times> alert list" where
  "convert_input_on_input el =
     (let max = or_zero (max_attr el);
          val = or_zero (input_val el);
          (val1, el1, shown) =
             (if js_gt val max then (max, el\<lparr>input_val := max\<rparr>, [over_max_alert])
              else (val, el, []));
          el2 = (if js_lt val1 (Fin 0) then el1\<lparr>input_val := Fin 0\<rparr> else el1)
      in (el2, shown))"

text \<open>
  The quantity a field stands for, as \<^verbatim>\<open>collect_conversion_data\<close> reads it:
  \<^verbatim>\<open>parseFloat($(this).val()) || 0\<close>.
\<close>

definition read_qty :: "convert_input \<Rightarrow> jsnum" where
  "read_qty el = or_zero (input_val el)"

text \<open>
  The user replaces the text of a field by one that reads as \<open>x\<close>; the browser fires
  \<^verbatim>\<open>input\<close> and the handler runs.
\<close>

definition type_into :: "jsnum \<Rightarrow> convert_input \<Rightarrow> convert_input \<times> alert list" where
  "type_into x el = convert_input_on_input (el\<lparr>input_val := x\<rparr>)"

text \<open>
  The clamping the handler performs, as a function of the entered value and the
  field's maximum: the quantity the field stands for once the handler has run.
\<close>

definition clampQuantity :: "jsnum \<Rightarrow> jsnum \<Rightarrow> jsnum" where
  "clampQuantity x m =
     read_qty (fst (type_into x \<lparr>max_attr = m, data_index = 0, input_val = NaN\<rparr>))"

section \<open>Documents, dialogs and the page\<close>

text \<open>
  A line of a pending loan waybill as \<^verbatim>\<open>get_pending_loan_waybills\<close> sends it. Only
  the properties the handlers below read are kept (the others are only printed
  into table cells). \<open>max_convertible_qty\<close> is a JSON number or absent.
\<close>

record loan_item =
  item_code :: jsval
  batch_no :: jsval
  serial_no :: jsval
  warehouse :: jsval
  expiry_date :: jsval
  stock_entry_detail :: jsval
  max_convertible_qty :: "jsnum option"

record loan =
  loan_waybill :: string
  loan_date :: string
  items :: "loan_item list"

text \<open>The fields of the Sales Order form (\<^verbatim>\<open>frm.doc\<close>) that the scripts read.\<close>

record sales_order =
  so_name :: string
  docstatus :: int
  customer :: jsval
  per_delivered :: jsnum
  custom_customer_delivery_note :: jsval
  custom_promissory_note :: jsval

text \<open>An element of \<^verbatim>\<open>payload.items\<close>, built by \<^verbatim>\<open>collect_conversion_data\<close>.\<close>

record payload_item =
  pi_item_code :: jsval
  pi_qty :: jsnum
  pi_batch_no :: jsval
  pi_serial_no :: jsval
  pi_warehouse :: jsval
  pi_expiry_date :: jsval
  pi_loan_waybill :: string
  pi_stock_entry_detail :: jsval

text \<open>What the handlers do to the outside: messages, remote calls, navigation.\<close>

record msg =
  msg_title :: string
  msg_text :: string
  msg_indicator :: string

datatype remote_call =
    GetPendingLoanWaybills string
  | CreateDeliveryNoteFromLoan string string "payload_item list"

datatype route = Route string string jsval

record selection_dialog =
  sd_loan_waybills :: "loan list"
  sd_customer :: jsval
  sd_checked :: "nat option"
  sd_visible :: bool

record conversion_dialog =
  cd_loan :: loan
  cd_inputs :: "convert_input list"
  cd_visible :: bool

text \<open>
  The page: the blocking messages (\<^verbatim>\<open>frappe.msgprint\<close>), the transient alerts
  (\<^verbatim>\<open>frappe.show_alert\<close>), the remote calls made (\<^verbatim>\<open>frappe.call\<close>), the
  navigations (\<^verbatim>\<open>frappe.set_route\<close>), each in the order issued, and the two
  dialogs of the workflow (the workflow is modal: the dialog last created of
  each kind).
\<close>

record page =
  msgprints :: "msg list"
  alerts :: "alert list"
  calls :: "remote_call list"
  routes :: "route list"
  selection :: "selection_dialog option"
  conversion :: "conversion_dialog option"

datatype custom_button =
    CreateCustomerDeliveryNote
  | CreatePromissoryNote
  | CheckPendingLoanWaybills

datatype js_error = TypeError

section \<open>The Sales Order form\<close>

text \<open>\<^verbatim>\<open>add_linked_document_buttons\<close>: the buttons it adds, in order.\<close>

definition add_linked_document_buttons :: "sales_order \<Rightarrow> custom_button list" where
  "add_linked_document_buttons doc =
     (if \<not> js_truthy (custom_customer_delivery_note doc) then [CreateCustomerDeliveryNote] else []) @
     (if \<not> js_truthy (custom_promissory_note doc) then [CreatePromissoryNote] else [])"

text \<open>
  The \<^verbatim>\<open>refresh\<close> handler of the Sales Order form: the custom buttons it adds.
  \<^verbatim>\<open>
  if (frm.doc.docstatus !== 1) return;
  add_linked_document_buttons(frm);
  if (!frm.doc.customer) return;
  if (frm.doc.per_delivered >= 100) return;
  frm.add_custom_button(__("Check Pending Loan Waybills"), ...)
  \<close>
\<close>

definition refresh :: "sales_order \<Rightarrow> custom_button list" where
  "refresh doc =
     (if docstatus doc \<noteq> 1 then []
      else if \<not> js_truthy (customer doc) then add_linked_document_buttons doc
      else if js_ge (per_delivered doc) (Fin 100) then add_linked_document_buttons doc
      else add_linked_document_buttons doc @ [CheckPendingLoanWaybills])"

section \<open>Fetching the pending loan waybills\<close>

text \<open>
  The reply of \<^verbatim>\<open>get_pending_loan_waybills\<close> (\<^verbatim>\<open>r.message\<close>); \<open>None\<close> for a
  property that is absent or null.
\<close>

record pending_data =
  pd_customer :: jsval
  pd_sales_order :: jsval
  pd_loan_waybills :: "loan list option"

definition no_pending_loans_msg :: msg where
  "no_pending_loans_msg =
     \<lparr>msg_title = ''No Pending Loans'',
      msg_text = ''No matching pending loan waybills were found for this Sales Order.'',
      msg_indicator = ''green''\<rparr>"

text \<open>\<^verbatim>\<open>check_pending_loans\<close>: the button's action issues the remote call.\<close>

definition check_pending_loans :: "sales_order \<Rightarrow> page \<Rightarrow> page" where
  "check_pending_loans doc p = p\<lparr>calls := calls p @ [GetPendingLoanWaybills (so_name doc)]\<rparr>"

text \<open>
  \<^verbatim>\<open>show_loan_selection_dialog\<close>: a new dialog, shown, holding the waybills
  (\<^verbatim>\<open>dialog.loan_waybills\<close>) with no radio button checked.
\<close>

definition show_loan_selection_dialog :: "sales_order \<Rightarrow> pending_data \<Rightarrow> loan list \<Rightarrow> page \<Rightarrow> page" where
  "show_loan_selection_dialog doc data lws p =
     p\<lparr>selection := Some \<lparr>sd_loan_waybills = lws, sd_customer = pd_customer data,
                           sd_checked = None, sd_visible = True\<rparr>\<rparr>"

text \<open>
  The \<^verbatim>\<open>callback\<close> of \<^verbatim>\<open>check_pending_loans\<close>, run on the reply:
  \<^verbatim>\<open>
  if (!data || !data.loan_waybills || !data.loan_waybills.length) {
      frappe.msgprint({title: __("No Pending Loans"), ...}); return; }
  show_loan_selection_dialog(frm, data);
  \<close>
\<close>

definition check_pending_loans_callback :: "sales_order \<Rightarrow> pending_data option \<Rightarrow> page \<Rightarrow> page" where
  "check_pending_loans_callback doc r p =
     (case r of
        None \<Rightarrow> p\<lparr>msgprints := msgprints p @ [no_pending_loans_msg]\<rparr>
      | Some data \<Rightarrow>
          (case pd_loan_waybills data of
             None \<Rightarrow> p\<lparr>msgprints := msgprints p @ [no_pending_loans_msg]\<rparr>
           | Some lws \<Rightarrow>
               if length lws = 0 then p\<lparr>msgprints := msgprints p @ [no_pending_loans_msg]\<rparr>
               else show_loan_selection_dialog doc data lws p))"

section \<open>The conversion dialog\<close>

text \<open>
  \<^verbatim>\<open>render_conversion_table\<close>: one input per line, in order, with
  \<^verbatim>\<open>max="${it.max_convertible_qty || 0}"\<close>, \<^verbatim>\<open>data-index="${i}"\<close> and an empty text.
\<close>

definition max_attr_of :: "loan_item \<Rightarrow> jsnum" where
  "max_attr_of it = (case max_convertible_qty it of None \<Rightarrow> Fin 0 | Some n \<Rightarrow> or_zero n)"

definition render_input :: "nat \<Rightarrow> loan_item \<Rightarrow> convert_input" where
  "render_input i it = \<lparr>max_attr = max_attr_of it, data_index = i, input_val = NaN\<rparr>"

definition render_conversion_table :: "loan_item list \<Rightarrow> convert_input list" where
  "render_conversion_table its = map (\<lambda>(i, it). render_input i it) (enumerate 0 its)"

text \<open>\<^verbatim>\<open>open_conversion_dialog\<close>: a new dialog for the loan, shown.\<close>

definition open_conversion_dialog :: "sales_order \<Rightarrow> loan \<Rightarrow> page \<Rightarrow> page" where
  "open_conversion_dialog doc l p =
     p\<lparr>conversion := Some \<lparr>cd_loan = l, cd_inputs = render_conversion_table (items l),
                            cd_visible = True\<rparr>\<rparr>"

text \<open>
  An edit of the \<open>i\<close>-th quantity field of the conversion dialog: the text becomes
  one that reads as \<open>x\<close> and the \<^verbatim>\<open>input\<close> handler runs. A hidden dialog, or a
  field that does not exist, takes no input.
\<close>

definition edit_quantity :: "nat \<Rightarrow> jsnum \<Rightarrow> page \<Rightarrow> page" where
  "edit_quantity i x p =
     (case conversion p of
        None \<Rightarrow> p
      | Some d \<Rightarrow>
          if cd_visible d \<and> i < length (cd_inputs d) then
            (let (el, shown) = type_into x (cd_inputs d ! i)
             in p\<lparr>conversion := Some (d\<lparr>cd_inputs := (cd_inputs d)[i := el]\<rparr>),
                  alerts := alerts p @ shown\<rparr>)
          else p)"

fun edit_quantities :: "(nat \<times> jsnum) list \<Rightarrow> page \<Rightarrow> page" where
  "edit_quantities [] p = p"
| "edit_quantities ((i, x) # es) p = edit_quantities es (edit_quantity i x p)"

text \<open>
  \<^verbatim>\<open>collect_conversion_data\<close>: over the inputs in document order,
  \<^verbatim>\<open>
  const qty = parseFloat($(this).val()) || 0;
  if (!qty) return;
  const src = loan.items[$(this).data("index")];
  items.push({item_code: src.item_code, qty: qty, batch_no: src.batch_no, ...});
  \<close>
  Reading a property of \<^verbatim>\<open>loan.items[index]\<close> beyond the end of the array throws
  a TypeError, which ends the walk.
\<close>

definition make_payload_item :: "loan \<Rightarrow> loan_item \<Rightarrow> jsnum \<Rightarrow> payload_item" where
  "make_payload_item l src qty =
     \<lparr>pi_item_code = item_code src, pi_qty = qty, pi_batch_no = batch_no src,
      pi_serial_no = serial_no src, pi_warehouse = warehouse src,
      pi_expiry_date = expiry_date src, pi_loan_waybill = loan_waybill l,
      pi_stock_entry_detail = stock_entry_detail src\<rparr>"

fun collect_inputs :: "loan \<Rightarrow> convert_input list \<Rightarrow> payload_item list \<Rightarrow> js_error + payload_item list" where
  "collect_inputs l [] acc = Inr acc"
| "collect_inputs l (el # els) acc =
     (let qty = or_zero (input_val el) in
      if \<not> num_truthy qty then collect_inputs l els acc
      else if data_index el < length (items l)
           then collect_inputs l els (acc @ [make_payload_item l (items l ! data_index el) qty])
           else Inl TypeError)"

definition collect_conversion_data :: "conversion_dialog \<Rightarrow> loan \<Rightarrow> js_error + payload_item list" where
  "collect_conversion_data d l = collect_inputs l (cd_inputs d) []"

text \<open>
  The payload as the specification words it, written without the code's own
  constructor: the request lines (a field and the loan line it was rendered for)
  with a requested quantity above 0, in order, each with the line's item code, the
  requested quantity, and the line's batch, serial number, warehouse and expiry
  date unchanged (and the loan's name and the line's stock entry reference, which
  the code sends too).
\<close>

definition expected_payload :: "loan \<Rightarrow> convert_input list \<Rightarrow> payload_item list" where
  "expected_payload l els =
     map (\<lambda>(el, it).
            \<lparr>pi_item_code = item_code it, pi_qty = read_qty el, pi_batch_no = batch_no it,
             pi_serial_no = serial_no it, pi_warehouse = warehouse it,
             pi_expiry_date = expiry_date it, pi_loan_waybill = loan_waybill l,
             pi_stock_entry_detail = stock_entry_detail it\<rparr>)
       (filter (\<lambda>(el, it). js_gt (read_qty el) (Fin 0)) (zip els (items l)))"

text \<open>
  A field whose quantity is not negative and not above its maximum (as the handler
  reads the maximum; a negative maximum bounds nothing, the quantity is then 0).
\<close>

definition within_max :: "convert_input \<Rightarrow> bool" where
  "within_max el =
     (js_ge (read_qty el) (Fin 0) \<and>
      (js_ge (or_zero (max_attr el)) (read_qty el) \<or> js_lt (or_zero (max_attr el)) (Fin 0)))"

text \<open>
  The fields of a dialog as \<^verbatim>\<open>render_conversion_table\<close> made them for the lines of
  a loan (index and maximum), each within its maximum.
\<close>

definition rendered_for :: "loan \<Rightarrow> convert_input list \<Rightarrow> bool" where
  "rendered_for l els =
     (map data_index els = [0..<length (items l)] \<and>
      map max_attr els = map max_attr_of (items l) \<and>
      list_all within_max els)"

text \<open>The page shows the open conversion dialog of loan \<open>l\<close>, so rendered.\<close>

definition capturing :: "loan \<Rightarrow> page \<Rightarrow> bool" where
  "capturing l p =
     (case conversion p of
        None \<Rightarrow> False
      | Some d \<Rightarrow> cd_loan d = l \<and> cd_visible d \<and> rendered_for l (cd_inputs d))"

text \<open>\<^verbatim>\<open>create_draft_delivery_note\<close>: issues the remote creation call.\<close>

definition create_draft_delivery_note :: "sales_order \<Rightarrow> loan \<Rightarrow> payload_item list \<Rightarrow> page \<Rightarrow> page" where
  "create_draft_delivery_note doc l its p =
     p\<lparr>calls := calls p @ [CreateDeliveryNoteFromLoan (so_name doc) (loan_waybill l) its]\<rparr>"

definition enter_quantity_msg :: msg where
  "enter_quantity_msg =
     \<lparr>msg_title = [], msg_text = ''Enter at least one quantity to convert.'', msg_indicator = []\<rparr>"

text \<open>
  The primary action ("Create Conversion Waybill") of the conversion dialog:
  \<^verbatim>\<open>
  const payload = collect_conversion_data(dialog, loan);
  if (!payload.items.length) { frappe.msgprint(...); return; }
  dialog.hide();
  create_draft_delivery_note(frm, loan, payload);
  \<close>
  An exception thrown while collecting leaves the handler before it changed
  anything. A hidden dialog has no button to press.
\<close>

definition conversion_primary_action :: "sales_order \<Rightarrow> page \<Rightarrow> page" where
  "conversion_primary_action doc p =
     (case conversion p of
        None \<Rightarrow> p
      | Some d \<Rightarrow>
          if \<not> cd_visible d then p
          else (case collect_conversion_data d (cd_loan d) of
                  Inl e \<Rightarrow> p
                | Inr its \<Rightarrow>
                    if length its = 0 then p\<lparr>msgprints := msgprints p @ [enter_quantity_msg]\<rparr>
                    else create_draft_delivery_note doc (cd_loan d) its
                           (p\<lparr>conversion := Some (d\<lparr>cd_visible := False\<rparr>)\<rparr>)))"

text \<open>
  The \<^verbatim>\<open>callback\<close> of \<^verbatim>\<open>create_draft_delivery_note\<close>, run with \<^verbatim>\<open>r.message\<close>:
  \<^verbatim>\<open>
  if (!r.message) return;
  frappe.set_route("Form", "Delivery Note", r.message);
  \<close>
\<close>

definition create_draft_delivery_note_callback :: "jsval \<Rightarrow> page \<Rightarrow> page" where
  "create_draft_delivery_note_callback message p =
     (if \<not> js_truthy message then p
      else p\<lparr>routes := routes p @ [Route ''Form'' ''Delivery Note'' message]\<rparr>)"

text \<open>
  How \<^verbatim>\<open>create_delivery_note_from_loan\<close> ends. \<^verbatim>\<open>frappe.call\<close> is given a
  \<^verbatim>\<open>callback\<close> and no \<^verbatim>\<open>error\<close> handler: a reply runs the callback once with
  its message, a failure (network, validation, authorization) runs none of these
  scripts.
\<close>

datatype remote_result = Replied jsval | Failed string

fun create_delivery_note_resolved :: "remote_result \<Rightarrow> page \<Rightarrow> page" where
  "create_delivery_note_resolved (Replied message) p = create_draft_delivery_note_callback message p"
| "create_delivery_note_resolved (Failed err) p = p"

text \<open>The quantity-capture state: the conversion dialog is open and takes input.\<close>

definition in_quantity_capture :: "page \<Rightarrow> bool" where
  "in_quantity_capture p = (case conversion p of None \<Rightarrow> False | Some d \<Rightarrow> cd_visible d)"

section \<open>The selection dialog\<close>

text \<open>
  \<^verbatim>\<open>get_selected_loan\<close>: \<^verbatim>\<open>null\<close> when no radio button is checked, else
  \<^verbatim>\<open>dialog.loan_waybills[index]\<close> (\<^verbatim>\<open>undefined\<close> beyond the end: \<open>None\<close> too, both
  are falsy for the caller).
\<close>

definition get_selected_loan :: "selection_dialog \<Rightarrow> loan option" where
  "get_selected_loan d =
     (case sd_checked d of
        None \<Rightarrow> None
      | Some i \<Rightarrow> if i < length (sd_loan_waybills d) then Some (sd_loan_waybills d ! i) else None)"

definition select_loan_msg :: msg where
  "select_loan_msg =
     \<lparr>msg_title = [], msg_text = ''Please select a Loan Waybill to convert.'', msg_indicator = []\<rparr>"

text \<open>
  The primary action ("Convert Selected") of the selection dialog:
  \<^verbatim>\<open>
  const selected = get_selected_loan(dialog);
  if (!selected) { frappe.msgprint(...); return; }
  dialog.hide();
  open_conversion_dialog(frm, selected);
  \<close>
\<close>

definition selection_primary_action :: "sales_order \<Rightarrow> page \<Rightarrow> page" where
  "selection_primary_action doc p =
     (case selection p of
        None \<Rightarrow> p
      | Some d \<Rightarrow>
          if \<not> sd_visible d then p
          else (case get_selected_loan d of
                  None \<Rightarrow> p\<lparr>msgprints := msgprints p @ [select_loan_msg]\<rparr>
                | Some l \<Rightarrow>
                    open_conversion_dialog doc l (p\<lparr>selection := Some (d\<lparr>sd_visible := False\<rparr>)\<rparr>)))"

text \<open>The page before any handler has run.\<close>

definition empty_page :: page where
  "empty_page = \<lparr>msgprints = [], alerts = [], calls = [], routes = [],
                 selection = None, conversion = None\<rparr>"

section \<open>Sample documents\<close>

text \<open>
  A submitted Sales Order, 40% delivered, and a pending loan waybill of two lines
  (at most 5 and at most 2 convertible), used to run the handlers on concrete input.
\<close>

definition doc0 :: sales_order where
  "doc0 = \<lparr>so_name = ''SO-0001'', docstatus = 1, customer = Str ''ACME'', per_delivered = Fin 40,
            custom_customer_delivery_note = Null, custom_promissory_note = Null\<rparr>"

definition item_a :: loan_item where
  "item_a = \<lparr>item_code = Str ''ITEM-A'', batch_no = Str ''B-7'', serial_no = Null,
              warehouse = Str ''Stores'', expiry_date = Str ''2027-03-31'',
              stock_entry_detail = Str ''SED-1'', max_convertible_qty = Some (Fin 5)\<rparr>"

definition item_b :: loan_item where
  "item_b = \<lparr>item_code = Str ''ITEM-B'', batch_no = Null, serial_no = Str ''SN-9'',
              warehouse = Str ''Stores'', expiry_date = Null,
              stock_entry_detail = Str ''SED-2'', max_convertible_qty = Some (Fin 2)\<rparr>"

definition loan0 :: loan where
  "loan0 = \<lparr>loan_waybill = ''LW-0001'', loan_date = ''2026-01-15'', items = [item_a, item_b]\<rparr>"



section \<open>Numbers and the input handler\<close>

lemma or_zero_idem: "or_zero (or_zero n) = or_zero n"
  by (simp add: or_zero_def num_truthy_def)




text \<open>The clamping written out: what the field stands for after the handler.\<close>

lemma clampQuantity_unfold:
  "clampQuantity x m =
     (if js_gt (or_zero x) (or_zero m)
      then (if js_lt (or_zero m) (Fin 0) then Fin 0 else or_zero m)
      else (if js_lt (or_zero x) (Fin 0) then Fin 0 else or_zero x))"
  by (simp add: clampQuantity_def type_into_def convert_input_on_input_def read_qty_def
      Let_def or_zero_idem or_zero_def[of "Fin 0"] num_truthy_def)

lemma type_into_fields:
  "data_index (fst (type_into x el)) = data_index el \<and> max_attr (fst (type_into x el)) = max_attr el"
  by (simp add: type_into_def convert_input_on_input_def Let_def)

lemma type_into_within_max: "within_max (fst (type_into x el))"
  by (cases x; cases "max_attr el")
     (auto simp: within_max_def type_into_def convert_input_on_input_def Let_def read_qty_def
        or_zero_def num_truthy_def js_gt_def js_ge_def)



section \<open>The fields of an open conversion dialog\<close>

lemma render_input_within_max: "within_max (render_input i it)"
  by (cases "max_attr_of it")
     (auto simp: render_input_def read_qty_def within_max_def or_zero_def num_truthy_def
        js_ge_def)

lemma rendered_for_render: "rendered_for l (render_conversion_table (items l))"
proof -
  have a: "map data_index (render_conversion_table its) = [0..<length its]" for its
  proof -
    have "data_index \<circ> (\<lambda>(i, it). render_input i it) = fst"
      by (auto simp: render_input_def)
    then show ?thesis
      by (simp add: render_conversion_table_def)
  qed
  have b: "map max_attr (render_conversion_table its) = map max_attr_of its" for its
  proof -
    have "max_attr \<circ> (\<lambda>(i, it). render_input i it) = max_attr_of \<circ> snd"
      by (auto simp: render_input_def)
    then have "map max_attr (render_conversion_table its) = map (max_attr_of \<circ> snd) (enumerate 0 its)"
      by (simp add: render_conversion_table_def)
    also have "\<dots> = map max_attr_of (map snd (enumerate 0 its))"
      by (simp only: map_map)
    finally show ?thesis by simp
  qed
  have c: "list_all within_max (render_conversion_table its)" for its
    by (auto simp: render_conversion_table_def list_all_iff render_input_within_max)
  show ?thesis
    unfolding rendered_for_def using a[of "items l"] b[of "items l"] c[of "items l"]
    by simp
qed

lemma rendered_for_update:
  assumes "rendered_for l els" and "i < length els"
  shows "rendered_for l (els[i := fst (type_into x (els ! i))])"
proof -
  let ?el = "fst (type_into x (els ! i))"
  have "map data_index (els[i := ?el]) = (map data_index els)[i := data_index ?el]"
    by (simp add: map_update)
  also have "\<dots> = map data_index els"
    using assms(2) by (simp add: type_into_fields list_update_same_conv)
  finally have a: "map data_index (els[i := ?el]) = map data_index els" .
  have "map max_attr (els[i := ?el]) = (map max_attr els)[i := max_attr ?el]"
    by (simp add: map_update)
  also have "\<dots> = map max_attr els"
    using assms(2) by (simp add: type_into_fields list_update_same_conv)
  finally have b: "map max_attr (els[i := ?el]) = map max_attr els" .
  have c: "list_all within_max (els[i := ?el])"
    using assms(1) set_update_subset_insert[of els i ?el]
    by (auto simp: rendered_for_def list_all_iff type_into_within_max)
  from a b c assms(1) show ?thesis by (simp add: rendered_for_def)
qed

lemma rendered_for_length: "rendered_for l els \<Longrightarrow> length els = length (items l)"
  by (metis rendered_for_def length_map length_upt minus_nat.diff_0)

lemma rendered_for_index:
  assumes "rendered_for l els" and "i < length (items l)"
  shows "data_index (els ! i) = i" and "max_attr (els ! i) = max_attr_of (items l ! i)"
    and "within_max (els ! i)"
proof -
  have len: "length els = length (items l)" by (rule rendered_for_length[OF assms(1)])
  from assms(1) have "map data_index els ! i = [0..<length (items l)] ! i"
    by (simp add: rendered_for_def)
  with assms(2) len show "data_index (els ! i) = i" by simp
  from assms(1) have "map max_attr els ! i = map max_attr_of (items l) ! i"
    by (simp add: rendered_for_def)
  with assms(2) len show "max_attr (els ! i) = max_attr_of (items l ! i)" by simp
  from assms(1) assms(2) len show "within_max (els ! i)"
    by (simp add: rendered_for_def list_all_length)
qed

text \<open>Opening the dialog and editing its fields keep it open and so rendered.\<close>

lemma capturing_open: "capturing l (open_conversion_dialog doc l p)"
  by (simp add: capturing_def open_conversion_dialog_def rendered_for_render)

lemma capturing_edit: "capturing l p \<Longrightarrow> capturing l (edit_quantity i x p)"
  by (auto simp: capturing_def edit_quantity_def case_prod_unfold Let_def rendered_for_update
      split: option.splits)

lemma capturing_edits: "capturing l p \<Longrightarrow> capturing l (edit_quantities es p)"
  by (induction es arbitrary: p) (auto simp: capturing_edit)

section \<open>Collecting the payload\<close>

lemma collect_inputs_all_zero:
  "list_all (\<lambda>el. read_qty el = Fin 0) els \<Longrightarrow> collect_inputs l els acc = Inr acc"
  by (induction els arbitrary: acc) (simp_all add: read_qty_def num_truthy_def Let_def)

lemma truthy_iff_positive: "js_ge q (Fin 0) \<Longrightarrow> num_truthy q = js_gt q (Fin 0)"
  by (cases q) (auto simp: js_ge_def js_gt_def num_truthy_def)

lemma collect_inputs_filter:
  assumes "list_all (\<lambda>el. data_index el < length (items l) \<and> js_ge (read_qty el) (Fin 0)) els"
  shows "collect_inputs l els acc =
           Inr (acc @ map (\<lambda>el. make_payload_item l (items l ! data_index el) (read_qty el))
                        (filter (\<lambda>el. js_gt (read_qty el) (Fin 0)) els))"
  using assms
proof (induction els arbitrary: acc)
  case Nil
  then show ?case by simp
next
  case (Cons el els)
  then have ge: "js_ge (read_qty el) (Fin 0)" and idx: "data_index el < length (items l)"
    and rest: "list_all (\<lambda>el. data_index el < length (items l) \<and> js_ge (read_qty el) (Fin 0)) els"
    by simp_all
  show ?case
  proof (cases "js_gt (read_qty el) (Fin 0)")
    case True
    with ge have "num_truthy (or_zero (input_val el))"
      by (simp add: truthy_iff_positive flip: read_qty_def)
    with True idx show ?thesis
      by (simp add: Cons.IH[OF rest] Let_def flip: read_qty_def)
  next
    case False
    with ge have "\<not> num_truthy (or_zero (input_val el))"
      by (simp add: truthy_iff_positive flip: read_qty_def)
    with False show ?thesis
      by (simp add: Cons.IH[OF rest] Let_def flip: read_qty_def)
  qed
qed

lemma collect_inputs_rendered:
  assumes "rendered_for l els"
  shows "collect_inputs l els [] = Inr (expected_payload l els)"
proof -
  have len: "length els = length (items l)" by (rule rendered_for_length[OF assms])
  let ?zs = "zip els (items l)"
  let ?P = "\<lambda>el. js_gt (read_qty el) (Fin 0)"
  let ?f = "\<lambda>el. make_payload_item l (items l ! data_index el) (read_qty el)"
  have all: "list_all (\<lambda>el. data_index el < length (items l) \<and> js_ge (read_qty el) (Fin 0)) els"
    unfolding list_all_length
  proof (intro allI impI)
    fix i assume "i < length els"
    with len have i: "i < length (items l)" by simp
    from rendered_for_index[OF assms i] i
    show "data_index (els ! i) < length (items l) \<and> js_ge (read_qty (els ! i)) (Fin 0)"
      by (simp add: within_max_def)
  qed
  have els: "els = map fst ?zs" using len by simp
  have "map ?f (filter ?P els) = map ?f (filter ?P (map fst ?zs))"
    using els by simp
  also have "\<dots> = map (?f \<circ> fst) (filter (?P \<circ> fst) ?zs)"
    by (simp add: filter_map)
  also have "\<dots> = map (\<lambda>(el, it). make_payload_item l it (read_qty el)) (filter (?P \<circ> fst) ?zs)"
  proof (rule map_cong[OF refl])
    fix z assume "z \<in> set (filter (?P \<circ> fst) ?zs)"
    then have "z \<in> set ?zs" by simp
    then obtain i where i: "i < length (items l)" and z: "z = (els ! i, items l ! i)"
      using len by (auto simp: set_zip)
    from rendered_for_index(1)[OF assms i] z
    show "(?f \<circ> fst) z = (case z of (el, it) \<Rightarrow> make_payload_item l it (read_qty el))"
      by simp
  qed
  also have "\<dots> = expected_payload l els"
    by (simp add: expected_payload_def make_payload_item_def comp_def case_prod_unfold)
  finally have "map ?f (filter ?P els) = expected_payload l els" .
  with collect_inputs_filter[OF all, of "[]"] show ?thesis by simp
qed

lemma expected_payload_nonempty:
  assumes "rendered_for l els"
  shows "(expected_payload l els \<noteq> []) = list_ex (\<lambda>el. js_gt (read_qty el) (Fin 0)) els"
proof -
  have len: "length els = length (items l)" by (rule rendered_for_length[OF assms])
  have "(expected_payload l els \<noteq> []) =
          (\<exists>z \<in> set (zip els (items l)). js_gt (read_qty (fst z)) (Fin 0))"
    by (force simp: expected_payload_def filter_empty_conv)
  also have "\<dots> = (\<exists>el \<in> set (map fst (zip els (items l))). js_gt (read_qty el) (Fin 0))"
    by auto
  also have "\<dots> = (\<exists>el \<in> set els. js_gt (read_qty el) (Fin 0))"
    using len by simp
  finally show ?thesis by (simp add: list_ex_iff)
qed

section \<open>The handlers on the sample documents\<close>

lemmas sample_defs = doc0_def item_a_def item_b_def loan0_def empty_page_def

lemmas dialog_defs = open_conversion_dialog_def render_conversion_table_def render_input_def
  max_attr_of_def edit_quantity_def type_into_def convert_input_on_input_def read_qty_def
  or_zero_def num_truthy_def js_gt_def js_ge_def Let_def

lemma captured_three:
  "edit_quantity 0 (Fin 3) (open_conversion_dialog doc0 loan0 empty_page) =
     empty_page\<lparr>conversion := Some \<lparr>cd_loan = loan0,
         cd_inputs = [\<lparr>max_attr = Fin 5, data_index = 0, input_val = Fin 3\<rparr>,
                      \<lparr>max_attr = Fin 2, data_index = 1, input_val = NaN\<rparr>],
         cd_visible = True\<rparr>\<rparr>"
  by (simp add: sample_defs dialog_defs)

lemma collected_three:
  "collect_conversion_data
     \<lparr>cd_loan = loan0,
      cd_inputs = [\<lparr>max_attr = Fin 5, data_index = 0, input_val = Fin 3\<rparr>,
                   \<lparr>max_attr = Fin 2, data_index = 1, input_val = NaN\<rparr>],
      cd_visible = True\<rparr> loan0 =
   Inr [make_payload_item loan0 item_a (Fin 3)]"
  by (simp add: collect_conversion_data_def loan0_def or_zero_def num_truthy_def Let_def)

section \<open>The claims\<close>

text \<open>
  C1 does not hold as stated. The primary action hides the conversion dialog
  before it issues \<^verbatim>\<open>create_delivery_note_from_loan\<close>, and no handler runs when
  the call fails: on the sample loan, with quantity 3 entered, a failure
  ("insufficient stock") leaves the page outside the quantity-capture state, and
  the scripts have shown no message.
\<close>

theorem creation_failure_counterexample:
  "in_quantity_capture (edit_quantity 0 (Fin 3) (open_conversion_dialog doc0 loan0 empty_page)) \<and>
   \<not> in_quantity_capture
       (create_delivery_note_resolved (Failed ''insufficient stock'')
          (conversion_primary_action doc0
             (edit_quantity 0 (Fin 3) (open_conversion_dialog doc0 loan0 empty_page)))) \<and>
   msgprints
       (create_delivery_note_resolved (Failed ''insufficient stock'')
          (conversion_primary_action doc0
             (edit_quantity 0 (Fin 3) (open_conversion_dialog doc0 loan0 empty_page)))) = []"
  unfolding captured_three using collected_three
  by (simp add: conversion_primary_action_def create_draft_delivery_note_def
      in_quantity_capture_def empty_page_def)

text \<open>
  C1, amended. When \<^verbatim>\<open>create_delivery_note_from_loan\<close> fails after a submit that
  collected a non-empty payload, the page is as the submit left it: the conversion
  dialog hidden, its fields (the entered quantities) unchanged, the one creation
  call issued, no message shown by the scripts and no navigation. The workflow is
  not back in quantity capture.
\<close>

theorem creation_failure_leaves_dialog_hidden:
  assumes "conversion p = Some d" and "cd_visible d"
    and "collect_conversion_data d (cd_loan d) = Inr its" and "its \<noteq> []"
  shows "create_delivery_note_resolved (Failed err) (conversion_primary_action doc p) =
           p\<lparr>conversion := Some (d\<lparr>cd_visible := False\<rparr>),
             calls := calls p @ [CreateDeliveryNoteFromLoan (so_name doc) (loan_waybill (cd_loan d)) its]\<rparr> \<and>
         \<not> in_quantity_capture
             (create_delivery_note_resolved (Failed err) (conversion_primary_action doc p))"
  using assms
  by (simp add: conversion_primary_action_def create_draft_delivery_note_def
      in_quantity_capture_def)

theorem creation_failure_leaves_dialog_hidden_witness:
  "create_delivery_note_resolved (Failed ''insufficient stock'')
      (conversion_primary_action doc0
         (edit_quantity 0 (Fin 3) (open_conversion_dialog doc0 loan0 empty_page))) =
     empty_page\<lparr>conversion := Some \<lparr>cd_loan = loan0,
         cd_inputs = [\<lparr>max_attr = Fin 5, data_index = 0, input_val = Fin 3\<rparr>,
                      \<lparr>max_attr = Fin 2, data_index = 1, input_val = NaN\<rparr>],
         cd_visible = False\<rparr>,
       calls := [CreateDeliveryNoteFromLoan ''SO-0001'' ''LW-0001''
                   [make_payload_item loan0 item_a (Fin 3)]]\<rparr>"
proof -
  let ?d = "\<lparr>cd_loan = loan0,
      cd_inputs = [\<lparr>max_attr = Fin 5, data_index = 0, input_val = Fin 3\<rparr>,
                   \<lparr>max_attr = Fin 2, data_index = 1, input_val = NaN\<rparr>],
      cd_visible = True\<rparr>"
  let ?p = "edit_quantity 0 (Fin 3) (open_conversion_dialog doc0 loan0 empty_page)"
  have h1: "conversion ?p = Some ?d" by (simp add: captured_three)
  have h2: "cd_visible ?d" by simp
  have h3: "collect_conversion_data ?d (cd_loan ?d) = Inr [make_payload_item loan0 item_a (Fin 3)]"
    using collected_three by simp
  have h4: "[make_payload_item loan0 item_a (Fin 3)] \<noteq> []" by simp
  from creation_failure_leaves_dialog_hidden [OF h1 h2 h3 h4, of "''insufficient stock''" doc0]
  show ?thesis
    unfolding captured_three by (simp add: empty_page_def doc0_def loan0_def)
qed

text \<open>
  C2. In every quantity-capture state (the conversion dialog open) in which every
  field stands for quantity 0, the primary action only shows the message "Enter
  at least one quantity to convert.": the dialog stays open and unchanged, no
  remote call is issued and nothing is navigated.
\<close>

theorem submit_all_zero_rejected:
  assumes "conversion p = Some d" and "cd_visible d"
    and "list_all (\<lambda>el. read_qty el = Fin 0) (cd_inputs d)"
  shows "conversion_primary_action doc p = p\<lparr>msgprints := msgprints p @ [enter_quantity_msg]\<rparr> \<and>
         conversion (conversion_primary_action doc p) = Some d \<and>
         in_quantity_capture (conversion_primary_action doc p) \<and>
         calls (conversion_primary_action doc p) = calls p \<and>
         routes (conversion_primary_action doc p) = routes p"
  using assms
  by (simp add: conversion_primary_action_def collect_conversion_data_def
      collect_inputs_all_zero in_quantity_capture_def)

theorem submit_all_zero_rejected_witness:
  "in_quantity_capture (edit_quantity 0 (Fin (- 3)) (open_conversion_dialog doc0 loan0 empty_page)) \<and>
   conversion_primary_action doc0
       (edit_quantity 0 (Fin (- 3)) (open_conversion_dialog doc0 loan0 empty_page)) =
     (edit_quantity 0 (Fin (- 3)) (open_conversion_dialog doc0 loan0 empty_page))
       \<lparr>msgprints := [enter_quantity_msg]\<rparr> \<and>
   calls (conversion_primary_action doc0
       (edit_quantity 0 (Fin (- 3)) (open_conversion_dialog doc0 loan0 empty_page))) = []"
proof -
  let ?p = "edit_quantity 0 (Fin (- 3)) (open_conversion_dialog doc0 loan0 empty_page)"
  let ?d = "\<lparr>cd_loan = loan0,
             cd_inputs = [\<lparr>max_attr = Fin 5, data_index = 0, input_val = Fin 0\<rparr>,
                          \<lparr>max_attr = Fin 2, data_index = 1, input_val = NaN\<rparr>],
             cd_visible = True\<rparr>"
  have h1: "conversion ?p = Some ?d"
    by (simp add: sample_defs dialog_defs)
  have h2: "cd_visible ?d" by simp
  have h3: "list_all (\<lambda>el. read_qty el = Fin 0) (cd_inputs ?d)"
    by (simp add: read_qty_def or_zero_def num_truthy_def)
  have h4: "msgprints ?p = [] \<and> calls ?p = []"
    by (simp add: sample_defs dialog_defs)
  from submit_all_zero_rejected [OF h1 h2 h3, of doc0] h1 h4 show ?thesis
    by (simp add: in_quantity_capture_def)
qed

text \<open>
  C3. For every maximum \<open>m \<ge> 0\<close> and every entered value \<open>x\<close> (a number, an infinity
  or a non-numeric text), the clamped quantity lies between 0 and \<open>m\<close>; a
  non-numeric or negative entry gives 0, an entry above \<open>m\<close> gives \<open>m\<close>, and any
  other entry is kept. The handler is a total function: no entry is an error.
\<close>

theorem clampQuantity_in_range:
  assumes "js_ge m (Fin 0)"
  shows "js_ge (clampQuantity x m) (Fin 0) \<and> js_ge m (clampQuantity x m) \<and>
         clampQuantity x m =
           (if x = NaN \<or> js_lt x (Fin 0) then Fin 0 else if js_gt x m then m else x)"
proof -
  from assms have m: "m \<noteq> NaN" "\<not> js_lt m (Fin 0)"
    by (simp_all add: js_ge_def)
  show ?thesis
    using m
    by (cases m; cases x)
       (auto simp: clampQuantity_unfold or_zero_def num_truthy_def js_gt_def js_ge_def)
qed

theorem clampQuantity_in_range_witness:
  "js_ge (Fin 5) (Fin 0) \<and> clampQuantity (Fin 7) (Fin 5) = Fin 5 \<and>
   js_ge (clampQuantity (Fin 7) (Fin 5)) (Fin 0) \<and> js_ge (Fin 5) (clampQuantity (Fin 7) (Fin 5))"
proof -
  have h: "js_ge (Fin 5) (Fin 0)" by (simp add: js_ge_def)
  from clampQuantity_in_range [OF h, of "Fin 7"] h show ?thesis
    by (simp add: js_gt_def js_ge_def)
qed

text \<open>
  C4. In every state of the conversion dialog reached from its opening by edits,
  with at least one field standing for a quantity above 0, the primary action
  hides the dialog and issues one creation call whose items are, in order, exactly
  the lines whose quantity is above 0, each with the item code, the quantity and
  the batch, serial number, warehouse and expiry date of its loan line.
\<close>

theorem submit_payload_positive_lines:
  assumes "p = edit_quantities es (open_conversion_dialog doc l p0)"
    and "conversion p = Some d"
    and "list_ex (\<lambda>el. js_gt (read_qty el) (Fin 0)) (cd_inputs d)"
  shows "collect_conversion_data d (cd_loan d) = Inr (expected_payload l (cd_inputs d)) \<and>
         conversion_primary_action doc p =
           p\<lparr>conversion := Some (d\<lparr>cd_visible := False\<rparr>),
             calls := calls p @ [CreateDeliveryNoteFromLoan (so_name doc) (loan_waybill l)
                                   (expected_payload l (cd_inputs d))]\<rparr>"
proof -
  from assms(1) have "capturing l p"
    by (simp add: capturing_edits capturing_open)
  with assms(2) have d: "cd_loan d = l" "cd_visible d" "rendered_for l (cd_inputs d)"
    by (simp_all add: capturing_def)
  have c: "collect_conversion_data d (cd_loan d) = Inr (expected_payload l (cd_inputs d))"
    using d by (simp add: collect_conversion_data_def collect_inputs_rendered)
  have ne: "expected_payload l (cd_inputs d) \<noteq> []"
    using expected_payload_nonempty[OF d(3)] assms(3) by simp
  show ?thesis
    using c ne assms(2) d
    by (simp add: conversion_primary_action_def create_draft_delivery_note_def)
qed

theorem submit_payload_positive_lines_witness:
  "calls (conversion_primary_action doc0
      (edit_quantities [(0, Fin 7), (1, Fin (- 3))] (open_conversion_dialog doc0 loan0 empty_page))) =
     [CreateDeliveryNoteFromLoan ''SO-0001'' ''LW-0001''
        [\<lparr>pi_item_code = Str ''ITEM-A'', pi_qty = Fin 5, pi_batch_no = Str ''B-7'',
          pi_serial_no = Null, pi_warehouse = Str ''Stores'', pi_expiry_date = Str ''2027-03-31'',
          pi_loan_waybill = ''LW-0001'', pi_stock_entry_detail = Str ''SED-1''\<rparr>]]"
proof -
  let ?d = "\<lparr>cd_loan = loan0,
      cd_inputs = [\<lparr>max_attr = Fin 5, data_index = 0, input_val = Fin 5\<rparr>,
                   \<lparr>max_attr = Fin 2, data_index = 1, input_val = Fin 0\<rparr>],
      cd_visible = True\<rparr>"
  let ?p = "edit_quantities [(0, Fin 7), (1, Fin (- 3))] (open_conversion_dialog doc0 loan0 empty_page)"
  have h1: "?p = edit_quantities [(0, Fin 7), (1, Fin (- 3))] (open_conversion_dialog doc0 loan0 empty_page)"
    by simp
  have h2: "conversion ?p = Some ?d"
    by (simp add: sample_defs dialog_defs)
  have h3: "list_ex (\<lambda>el. js_gt (read_qty el) (Fin 0)) (cd_inputs ?d)"
    by (simp add: read_qty_def or_zero_def num_truthy_def js_gt_def)
  have c: "calls ?p = []"
    by (simp add: sample_defs dialog_defs)
  have e: "expected_payload loan0 (cd_inputs ?d) =
      [\<lparr>pi_item_code = Str ''ITEM-A'', pi_qty = Fin 5, pi_batch_no = Str ''B-7'',
        pi_serial_no = Null, pi_warehouse = Str ''Stores'', pi_expiry_date = Str ''2027-03-31'',
        pi_loan_waybill = ''LW-0001'', pi_stock_entry_detail = Str ''SED-1''\<rparr>]"
    by (simp add: expected_payload_def make_payload_item_def read_qty_def or_zero_def
        num_truthy_def js_gt_def loan0_def item_a_def item_b_def)
  from submit_payload_positive_lines [OF h1 h2 h3] c e show ?thesis
    by (simp add: doc0_def loan0_def)
qed




text \<open>
  C6. When the reply to \<^verbatim>\<open>get_pending_loan_waybills\<close> holds an empty list of loan
  waybills, the callback only shows the "No Pending Loans" message: no selection
  dialog and no conversion dialog is opened.
\<close>

theorem no_pending_loans_no_dialog:
  assumes "pd_loan_waybills data = Some []"
  shows "check_pending_loans_callback doc (Some data) p =
           p\<lparr>msgprints := msgprints p @ [no_pending_loans_msg]\<rparr> \<and>
         selection (check_pending_loans_callback doc (Some data) p) = selection p \<and>
         conversion (check_pending_loans_callback doc (Some data) p) = conversion p"
  using assms by (simp add: check_pending_loans_callback_def)

theorem no_pending_loans_no_dialog_witness:
  "check_pending_loans_callback doc0
       (Some \<lparr>pd_customer = Str ''ACME'', pd_sales_order = Str ''SO-0001'', pd_loan_waybills = Some []\<rparr>)
       (check_pending_loans doc0 empty_page) =
     empty_page\<lparr>msgprints := [no_pending_loans_msg], calls := [GetPendingLoanWaybills ''SO-0001'']\<rparr> \<and>
   selection (check_pending_loans_callback doc0
       (Some \<lparr>pd_customer = Str ''ACME'', pd_sales_order = Str ''SO-0001'', pd_loan_waybills = Some []\<rparr>)
       (check_pending_loans doc0 empty_page)) = None"
proof -
  let ?data = "\<lparr>pd_customer = Str ''ACME'', pd_sales_order = Str ''SO-0001'', pd_loan_waybills = Some []\<rparr>"
  have h: "pd_loan_waybills ?data = Some []" by simp
  from no_pending_loans_no_dialog [OF h, of doc0 "check_pending_loans doc0 empty_page"]
  show ?thesis
    by (simp add: check_pending_loans_def doc0_def empty_page_def)
qed

text \<open>
  C7 does not hold as stated: \<^verbatim>\<open>refresh\<close> also returns before adding the button
  when the order has no customer. A submitted order, 40% delivered, with an empty
  customer field is not offered the button.
\<close>

theorem check_pending_button_counterexample:
  "\<not> ((CheckPendingLoanWaybills \<in> set (refresh (doc0\<lparr>customer := Str []\<rparr>))) =
        (docstatus (doc0\<lparr>customer := Str []\<rparr>) = 1 \<and>
         js_lt (per_delivered (doc0\<lparr>customer := Str []\<rparr>)) (Fin 100)))"
  by (simp add: doc0_def refresh_def add_linked_document_buttons_def)

text \<open>
  C7, amended. The "Check Pending Loan Waybills" button is offered exactly when the
  Sales Order is submitted (\<open>docstatus = 1\<close>), its customer field is set, and
  \<open>per_delivered\<close> is not at or above 100 (that is, below 100, or not a number).
\<close>

theorem check_pending_button_offered:
  "(CheckPendingLoanWaybills \<in> set (refresh doc)) =
     (docstatus doc = 1 \<and> js_truthy (customer doc) \<and>
      (js_lt (per_delivered doc) (Fin 100) \<or> per_delivered doc = NaN))"
  by (cases "per_delivered doc")
     (auto simp: refresh_def add_linked_document_buttons_def js_ge_def)

theorem check_pending_button_offered_witness:
  "CheckPendingLoanWaybills \<in> set (refresh doc0) \<and> docstatus doc0 = 1 \<and>
   js_truthy (customer doc0) \<and> js_lt (per_delivered doc0) (Fin 100)"
  using check_pending_button_offered [of doc0] by (simp add: doc0_def)

text \<open>
  C8. The clamping is idempotent for every entered value and every maximum
  (negative, infinite and non-numeric maxima included): clamping the clamped
  quantity again, with the same maximum, changes nothing.
\<close>

theorem clampQuantity_idempotent:
  "clampQuantity (clampQuantity x m) m = clampQuantity x m"
  by (cases m; cases x)
     (auto simp: clampQuantity_unfold or_zero_def num_truthy_def js_gt_def)

theorem clampQuantity_idempotent_witness:
  "clampQuantity (clampQuantity (Fin 7) (Fin 5)) (Fin 5) = Fin 5"
  using clampQuantity_idempotent [of "Fin 7" "Fin 5"]
  by (simp add: clampQuantity_unfold or_zero_def num_truthy_def js_gt_def)

text \<open>
  C9. After a submit that collected a non-empty payload, a reply carrying a new
  document id (a non-empty name) adds exactly one navigation, to the form of that
  Delivery Note, and the conversion dialog stays hidden: the workflow is closed.
\<close>

theorem creation_success_navigates_once:
  assumes "conversion p = Some d" and "cd_visible d"
    and "collect_conversion_data d (cd_loan d) = Inr its" and "its \<noteq> []"
    and "docid \<noteq> []"
  shows "routes (create_delivery_note_resolved (Replied (Str docid)) (conversion_primary_action doc p))
           = routes p @ [Route ''Form'' ''Delivery Note'' (Str docid)] \<and>
         conversion (create_delivery_note_resolved (Replied (Str docid)) (conversion_primary_action doc p))
           = Some (d\<lparr>cd_visible := False\<rparr>) \<and>
         \<not> in_quantity_capture
             (create_delivery_note_resolved (Replied (Str docid)) (conversion_primary_action doc p))"
  using assms
  by (simp add: conversion_primary_action_def create_draft_delivery_note_def
      create_draft_delivery_note_callback_def in_quantity_capture_def)

theorem creation_success_navigates_once_witness:
  "routes (create_delivery_note_resolved (Replied (Str ''DN-0001''))
      (conversion_primary_action doc0
         (edit_quantity 0 (Fin 3) (open_conversion_dialog doc0 loan0 empty_page)))) =
     [Route ''Form'' ''Delivery Note'' (Str ''DN-0001'')] \<and>
   \<not> in_quantity_capture (create_delivery_note_resolved (Replied (Str ''DN-0001''))
      (conversion_primary_action doc0
         (edit_quantity 0 (Fin 3) (open_conversion_dialog doc0 loan0 empty_page))))"
proof -
  let ?d = "\<lparr>cd_loan = loan0,
      cd_inputs = [\<lparr>max_attr = Fin 5, data_index = 0, input_val = Fin 3\<rparr>,
                   \<lparr>max_attr = Fin 2, data_index = 1, input_val = NaN\<rparr>],
      cd_visible = True\<rparr>"
  let ?p = "edit_quantity 0 (Fin 3) (open_conversion_dialog doc0 loan0 empty_page)"
  have h1: "conversion ?p = Some ?d" by (simp add: captured_three)
  have h2: "cd_visible ?d" by simp
  have h3: "collect_conversion_data ?d (cd_loan ?d) = Inr [make_payload_item loan0 item_a (Fin 3)]"
    using collected_three by simp
  have h4: "[make_payload_item loan0 item_a (Fin 3)] \<noteq> []" by simp
  have h5: "''DN-0001'' \<noteq> []" by simp
  have r: "routes ?p = []" unfolding captured_three by (simp add: empty_page_def)
  from creation_success_navigates_once [OF h1 h2 h3 h4 h5, of doc0] r show ?thesis
    by simp
qed

text \<open>
  C10. In the open selection dialog with no radio button checked, the primary
  action ("Convert Selected") only shows "Please select a Loan Waybill to
  convert.": the selection dialog is not hidden and no conversion dialog is opened.
\<close>

theorem convert_selected_without_selection:
  assumes "selection p = Some d" and "sd_visible d" and "sd_checked d = None"
  shows "selection_primary_action doc p = p\<lparr>msgprints := msgprints p @ [select_loan_msg]\<rparr> \<and>
         selection (selection_primary_action doc p) = Some d \<and>
         conversion (selection_primary_action doc p) = conversion p"
  using assms by (simp add: selection_primary_action_def get_selected_loan_def)

theorem convert_selected_without_selection_witness:
  "selection_primary_action doc0
       (show_loan_selection_dialog doc0
          \<lparr>pd_customer = Str ''ACME'', pd_sales_order = Str ''SO-0001'', pd_loan_waybills = Some [loan0]\<rparr>
          [loan0] empty_page) =
     (show_loan_selection_dialog doc0
          \<lparr>pd_customer = Str ''ACME'', pd_sales_order = Str ''SO-0001'', pd_loan_waybills = Some [loan0]\<rparr>
          [loan0] empty_page)\<lparr>msgprints := [select_loan_msg]\<rparr> \<and>
   conversion (selection_primary_action doc0
       (show_loan_selection_dialog doc0
          \<lparr>pd_customer = Str ''ACME'', pd_sales_order = Str ''SO-0001'', pd_loan_waybills = Some [loan0]\<rparr>
          [loan0] empty_page)) = None"
proof -
  let ?data = "\<lparr>pd_customer = Str ''ACME'', pd_sales_order = Str ''SO-0001'', pd_loan_waybills = Some [loan0]\<rparr>"
  let ?p = "show_loan_selection_dialog doc0 ?data [loan0] empty_page"
  let ?d = "\<lparr>sd_loan_waybills = [loan0], sd_customer = Str ''ACME'', sd_checked = None, sd_visible = True\<rparr>"
  have h1: "selection ?p = Some ?d" by (simp add: show_loan_selection_dialog_def)
  have h2: "sd_visible ?d" by simp
  have h3: "sd_checked ?d = None" by simp
  from convert_selected_without_selection [OF h1 h2 h3, of doc0] show ?thesis
    by (simp add: show_loan_selection_dialog_def empty_page_def)
qed

end
